theory Spec2Isabelle
  imports Complex_Main "HOL-Library.AList" "HOL-Library.Char_ord" "HOL-Library.List_Lexorder"
begin

section \<open>The sequence encoder of \<^verbatim>\<open>train_model.py\<close>\<close>

text \<open>
  Strings are lists of 8-bit characters. \<^verbatim>\<open>str.upper\<close> is modelled on the ASCII
  letters; a character above 127 is left as it is (Python maps no Latin-1 character
  above 127 to text that contains one of A, T, C, G, so the filter below keeps the
  same characters).
\<close>

definition upper_char :: "char \<Rightarrow> char" where
  "upper_char c =
     (let n = (of_char c :: nat)
      in if 97 \<le> n \<and> n \<le> 122 then char_of (n - 32) else c)"

definition upper :: "string \<Rightarrow> string" where
  "upper s = map upper_char s"

text \<open>The dictionary \<^verbatim>\<open>mapping\<close> of \<^verbatim>\<open>one_hot_encode_sequence\<close>.\<close>

definition mapping :: "char \<rightharpoonup> int list" where
  "mapping = map_of
     [(CHR ''A'', [1, 0, 0, 0]),
      (CHR ''T'', [0, 1, 0, 0]),
      (CHR ''C'', [0, 0, 1, 0]),
      (CHR ''G'', [0, 0, 0, 1])]"

text \<open>\<^verbatim>\<open>''.join([base for base in sequence.upper() if base in 'ATCG'])\<close>\<close>

definition clean :: "string \<Rightarrow> string" where
  "clean s = filter (\<lambda>base. base \<in> set ''ATCG'') (upper s)"

text \<open>
  Python's \<^verbatim>\<open>sequence[:n]\<close>: a negative \<open>n\<close> counts from the end of the string.
\<close>

definition slice_to :: "string \<Rightarrow> int \<Rightarrow> string" where
  "slice_to s n =
     (if 0 \<le> n then take (nat n) s else take (nat (int (length s) + n)) s)"

text \<open>The pad-or-truncate step; \<open>L\<close> is \<^verbatim>\<open>self.sequence_length\<close>, a Python int.\<close>

definition pad_or_truncate :: "int \<Rightarrow> string \<Rightarrow> string" where
  "pad_or_truncate L s =
     (if int (length s) < L
      then s @ replicate (nat (L - int (length s))) CHR ''N''
      else slice_to s L)"

text \<open>One pass of the body of the \<^verbatim>\<open>for base in sequence\<close> loop.\<close>

definition encode_base :: "char \<Rightarrow> int list" where
  "encode_base base =
     (case mapping base of Some v \<Rightarrow> v | None \<Rightarrow> [0, 0, 0, 0])"

text \<open>The loop itself, with the list \<^verbatim>\<open>encoded\<close> as its accumulator.\<close>

fun encode_loop :: "string \<Rightarrow> int list list \<Rightarrow> int list list" where
  "encode_loop [] encoded = encoded"
| "encode_loop (base # rest) encoded = encode_loop rest (encoded @ [encode_base base])"

text \<open>
  \<^verbatim>\<open>np.array\<close> on a list of rows of one length: the array has shape \<open>(n, m)\<close>
  for \<open>n > 0\<close> rows of length \<open>m\<close>, and shape \<open>(0,)\<close> for the empty list, which has
  no row to read a second axis from.
\<close>

record ndarray =
  shape :: "nat list"
  rows :: "int list list"

definition np_array :: "int list list \<Rightarrow> ndarray" where
  "np_array xs =
     \<lparr>shape = (case xs of [] \<Rightarrow> [0] | r # _ \<Rightarrow> [length xs, length r]),
      rows = xs\<rparr>"

definition one_hot_encode_sequence :: "int \<Rightarrow> string \<Rightarrow> ndarray" where
  "one_hot_encode_sequence L sequence =
     np_array (encode_loop (pad_or_truncate L (clean sequence)) [])"

text \<open>The rows of an encoded sequence: the four basis vectors and the zero vector.\<close>

definition basis_vectors :: "int list set" where
  "basis_vectors = {[1, 0, 0, 0], [0, 1, 0, 0], [0, 0, 1, 0], [0, 0, 0, 1]}"

definition zero_vector :: "int list" where
  "zero_vector = [0, 0, 0, 0]"

section \<open>Errors, files and standard output\<close>

text \<open>
  Every exception the two scripts can see is a value. \<open>ExternalError\<close> stands for
  whatever an external collaborator (the deep-learning framework, the model converter,
  the JSON parser, the operating system) raises. \<open>ValueError_unseen_labels diff\<close> is
  the \<^verbatim>\<open>ValueError\<close> of sklearn whose text is
  \<^verbatim>\<open>"y contains previously unseen labels: "\<close> followed by the array \<open>diff\<close> of
  the offending labels.
\<close>

datatype error =
    ValueError string
  | ValueError_unseen_labels "nat list"
  | IndexError
  | AttributeError
  | NotFittedError
  | FileExistsError
  | FileNotFoundError
  | IsADirectoryError
  | ExternalError string

text \<open>
  The file system is a map from the path, as the script spells it, to a directory or
  a regular file with its content.
\<close>

datatype node = Dir | File string

type_synonym fs = "string \<rightharpoonup> node"

text \<open>
  The lines the scripts print, one constructor per \<^verbatim>\<open>print\<close> statement:
  \<^item> \<open>Creating_model_files\<close>: \<^verbatim>\<open>"Creating model files..."\<close>
  \<^item> \<open>Model_files_already_exist\<close>: \<^verbatim>\<open>"Model files already exist"\<close>
  \<^item> \<open>Model_JSON_is_valid\<close>: \<^verbatim>\<open>"Model JSON is valid"\<close>
  \<^item> \<open>Weights_file_exists n\<close>: \<^verbatim>\<open>f"Weights file exists, size: {file_size} bytes"\<close>
  \<^item> \<open>Weights_file_missing\<close>: \<^verbatim>\<open>"Weights file missing"\<close>
  \<^item> \<open>Error_validating e\<close>: \<^verbatim>\<open>f"Error validating model files: {e}"\<close>
  \<^item> \<open>Simple_model_created\<close>: \<^verbatim>\<open>"Simple model created and saved successfully"\<close>
  \<^item> \<open>Model_saved_to p\<close>: \<^verbatim>\<open>f"Model saved to {model_path}"\<close>
\<close>

datatype line =
    Creating_model_files
  | Model_files_already_exist
  | Model_JSON_is_valid
  | Weights_file_exists nat
  | Weights_file_missing
  | Error_validating error
  | Simple_model_created
  | Model_saved_to string

record world =
  nodes :: fs
  stdout :: "line list"

definition print :: "line \<Rightarrow> world \<Rightarrow> world" where
  "print l w = w\<lparr>stdout := stdout w @ [l]\<rparr>"

section \<open>The classifier of \<^verbatim>\<open>train_model.py\<close>\<close>

text \<open>
  \<^verbatim>\<open>DNASequenceClassifier\<close>. The trained network is a value of an abstract type
  \<open>'m\<close>; \<open>None\<close> is Python's \<^verbatim>\<open>None\<close>. The label encoder is sklearn's
  \<^verbatim>\<open>LabelEncoder\<close>, whose state is its attribute \<^verbatim>\<open>classes_\<close>, absent before the
  encoder is fitted.
\<close>

type_synonym label_encoder = "string list option"

record 'm classifier =
  sequence_length :: int
  model :: "'m option"
  label_encoder :: label_encoder
  class_names :: "string list"

definition init :: "int \<Rightarrow> 'm classifier" where
  "init L =
     \<lparr>sequence_length = L,
      model = None,
      label_encoder = None,
      class_names = [''Human'', ''Bacteria'', ''Virus'', ''Plant'']\<rparr>"

text \<open>
  \<^verbatim>\<open>LabelEncoder.fit_transform\<close>: the vocabulary is the sorted list of the distinct
  labels, and each label is replaced by its index there.
\<close>

fun index_of :: "'a list \<Rightarrow> 'a \<Rightarrow> nat" where
  "index_of [] x = 0"
| "index_of (y # ys) x = (if x = y then 0 else Suc (index_of ys x))"

definition fit_transform :: "string list \<Rightarrow> label_encoder \<times> nat list" where
  "fit_transform labels =
     (let classes = sort (remdups labels)
      in (Some classes, map (index_of classes) labels))"

text \<open>
  \<^verbatim>\<open>LabelEncoder.inverse_transform\<close>: it refuses an encoder that was not fitted,
  and it refuses indices outside the vocabulary, which its error lists sorted and
  without repetition (\<^verbatim>\<open>np.setdiff1d\<close>).
\<close>

definition inverse_transform :: "label_encoder \<Rightarrow> nat list \<Rightarrow> error + string list" where
  "inverse_transform le ys =
     (case le of
        None \<Rightarrow> Inl NotFittedError
      | Some classes \<Rightarrow>
          let diff = sort (remdups (filter (\<lambda>y. length classes \<le> y) ys))
          in if diff \<noteq> []
             then Inl (ValueError_unseen_labels diff)
             else Inr (map (\<lambda>y. classes ! y) ys))"

text \<open>
  \<^verbatim>\<open>load_and_preprocess_data\<close>, from the two columns the external table reader
  returns: every sequence is encoded, and the label encoder is fitted.
\<close>

definition load_and_preprocess_data ::
  "(string \<Rightarrow> error + string list \<times> string list) \<Rightarrow> 'm classifier \<Rightarrow> string \<Rightarrow>
     error + (ndarray list \<times> nat list) \<times> 'm classifier" where
  "load_and_preprocess_data read_excel self csv_file_path =
     (case read_excel csv_file_path of
        Inl e \<Rightarrow> Inl e
      | Inr (sequences, labels) \<Rightarrow>
          let X = map (one_hot_encode_sequence (sequence_length self)) sequences;
              (le, y) = fit_transform labels
          in Inr ((X, y), self\<lparr>label_encoder := le\<rparr>))"

text \<open>\<^verbatim>\<open>evaluate\<close>; \<open>model_evaluate\<close> is the framework's \<^verbatim>\<open>model.evaluate\<close>.\<close>

definition evaluate ::
  "('m \<Rightarrow> 'x \<Rightarrow> 'y \<Rightarrow> error + 'r) \<Rightarrow> 'm classifier \<Rightarrow> 'x \<Rightarrow> 'y \<Rightarrow> error + 'r" where
  "evaluate model_evaluate self X y =
     (case model self of
        None \<Rightarrow> Inl (ValueError ''Model must be trained first'')
      | Some m \<Rightarrow> model_evaluate m X y)"

text \<open>\<^verbatim>\<open>np.expand_dims(a, axis=0)\<close>: a new leading axis of length one.\<close>

definition expand_dims0 :: "ndarray \<Rightarrow> ndarray" where
  "expand_dims0 a = a\<lparr>shape := 1 # shape a\<rparr>"

text \<open>\<^verbatim>\<open>np.argmax\<close> on a vector: the first index of the greatest entry.\<close>

fun argmax_loop :: "'p::linorder list \<Rightarrow> nat \<Rightarrow> nat \<Rightarrow> 'p \<Rightarrow> nat" where
  "argmax_loop [] i best v = best"
| "argmax_loop (x # xs) i best v =
     (if v < x then argmax_loop xs (Suc i) i x else argmax_loop xs (Suc i) best v)"

definition argmax :: "'p::linorder list \<Rightarrow> error + nat" where
  "argmax xs =
     (case xs of
        [] \<Rightarrow> Inl (ValueError ''attempt to get argmax of an empty sequence'')
      | x # rest \<Rightarrow> Inr (argmax_loop rest 1 0 x))"

text \<open>
  The dictionary comprehension
  \<^verbatim>\<open>{self.class_names[i]: float(prob) for i, prob in enumerate(predictions[0])}\<close>.
  A Python dictionary keeps its keys in the order of their first insertion, which is
  what \<open>AList.update\<close> does on an association list.
\<close>

fun all_probabilities_loop ::
  "string list \<Rightarrow> nat \<Rightarrow> 'p list \<Rightarrow> (string \<times> 'p) list \<Rightarrow> error + (string \<times> 'p) list" where
  "all_probabilities_loop names i [] d = Inr d"
| "all_probabilities_loop names i (prob # rest) d =
     (if i < length names
      then all_probabilities_loop names (Suc i) rest (AList.update (names ! i) prob d)
      else Inl IndexError)"

text \<open>The dictionary \<^verbatim>\<open>predict\<close> returns; \<open>class_key\<close> is its key \<^verbatim>\<open>'class'\<close>.\<close>

record 'p prediction =
  class_key :: string
  confidence :: 'p
  all_probabilities :: "(string \<times> 'p) list"

text \<open>
  \<^verbatim>\<open>predict\<close>; \<open>model_predict\<close> is the framework's \<^verbatim>\<open>model.predict\<close>, which
  returns one vector of scores per element of the batch.
\<close>

definition predict ::
  "('m \<Rightarrow> ndarray \<Rightarrow> error + 'p::linorder list list) \<Rightarrow> 'm classifier \<Rightarrow> string \<Rightarrow>
     error + 'p prediction" where
  "predict model_predict self sequence =
     (case model self of
        None \<Rightarrow> Inl (ValueError ''Model must be trained first'')
      | Some m \<Rightarrow>
          let encoded_seq = one_hot_encode_sequence (sequence_length self) sequence;
              encoded_seq = expand_dims0 encoded_seq
          in case model_predict m encoded_seq of
               Inl e \<Rightarrow> Inl e
             | Inr predictions \<Rightarrow>
                 (case predictions of
                    [] \<Rightarrow> Inl IndexError
                  | p0 # _ \<Rightarrow>
                      (case argmax p0 of
                         Inl e \<Rightarrow> Inl e
                       | Inr predicted_class \<Rightarrow>
                           let confidence = p0 ! predicted_class
                           in case inverse_transform (label_encoder self) [predicted_class] of
                                Inl e \<Rightarrow> Inl e
                              | Inr names \<Rightarrow>
                                  (case all_probabilities_loop (class_names self) 0 p0 [] of
                                     Inl e \<Rightarrow> Inl e
                                   | Inr d \<Rightarrow>
                                       Inr \<lparr>class_key = hd names,
                                            confidence = confidence,
                                            all_probabilities = d\<rparr>))))"

text \<open>
  \<^verbatim>\<open>save_model\<close>. Its collaborators: \<open>keras_save\<close> is \<^verbatim>\<open>model.save\<close>,
  \<open>tfjs_save\<close> is \<^verbatim>\<open>tfjs.converters.save_keras_model\<close>, \<open>json_dump\<close> is the text
  \<^verbatim>\<open>json.dump\<close> writes and \<open>write_text\<close> is \<^verbatim>\<open>open(path, 'w')\<close> with the write.
\<close>

record model_info =
  info_class_names :: "string list"
  info_sequence_length :: int
  info_label_encoder_classes :: "string list"

record 'm save_externals =
  keras_save :: "'m \<Rightarrow> string \<Rightarrow> fs \<Rightarrow> error + fs"
  tfjs_save :: "'m \<Rightarrow> string \<Rightarrow> fs \<Rightarrow> error + fs"
  json_dump :: "model_info \<Rightarrow> string"
  write_text :: "string \<Rightarrow> string \<Rightarrow> fs \<Rightarrow> error + fs"

definition save_model ::
  "'m save_externals \<Rightarrow> 'm classifier \<Rightarrow> string \<Rightarrow> world \<Rightarrow> error + world" where
  "save_model ext self model_path w =
     (case model self of
        None \<Rightarrow> Inl (ValueError ''No model to save'')
      | Some m \<Rightarrow>
          (case keras_save ext m ''dna_classifier.h5'' (nodes w) of
             Inl e \<Rightarrow> Inl e
           | Inr fs1 \<Rightarrow>
               (case tfjs_save ext m model_path fs1 of
                  Inl e \<Rightarrow> Inl e
                | Inr fs2 \<Rightarrow>
                    (case label_encoder self of
                       None \<Rightarrow> Inl AttributeError
                     | Some classes \<Rightarrow>
                         let model_info =
                               \<lparr>info_class_names = class_names self,
                                info_sequence_length = sequence_length self,
                                info_label_encoder_classes = classes\<rparr>
                         in case write_text ext (model_path @ ''/model_info.json'')
                                   (json_dump ext model_info) fs2 of
                              Inl e \<Rightarrow> Inl e
                            | Inr fs3 \<Rightarrow>
                                Inr (print (Model_saved_to model_path) (w\<lparr>nodes := fs3\<rparr>))))))"

section \<open>The bootstrap of \<^verbatim>\<open>check_model.py\<close>\<close>

text \<open>The network \<^verbatim>\<open>create_simple_model\<close> builds and compiles.\<close>

datatype layer =
    InputLayer "nat list"
  | Flatten
  | Dense nat string "string option"
  | Dropout real

record keras_model =
  layers :: "layer list"
  optimizer :: string
  loss :: string
  metrics :: "string list"

definition simple_model :: keras_model where
  "simple_model =
     \<lparr>layers =
        [InputLayer [1000, 4],
         Flatten,
         Dense 128 ''relu'' None,
         Dropout (3 / 10),
         Dense 64 ''relu'' None,
         Dropout (2 / 10),
         Dense 4 ''softmax'' (Some ''output'')],
      optimizer = ''adam'',
      loss = ''categorical_crossentropy'',
      metrics = [''accuracy'']\<rparr>"

text \<open>
  The collaborators of the bootstrap: \<open>json_load\<close> is \<^verbatim>\<open>json.load\<close> on the text of a
  file, \<open>save_keras_model\<close> is \<^verbatim>\<open>tfjs.converters.save_keras_model\<close> (with building
  the network and importing the converter, which can fail too), and \<open>getsize_dir\<close> is
  the size the operating system reports for a directory.
\<close>

record 'j externals =
  json_load :: "string \<Rightarrow> error + 'j"
  save_keras_model :: "keras_model \<Rightarrow> string \<Rightarrow> fs \<Rightarrow> error + fs"
  getsize_dir :: nat

definition create_simple_model :: "'j externals \<Rightarrow> world \<Rightarrow> error + world" where
  "create_simple_model ext w =
     (case save_keras_model ext simple_model ''models/'' (nodes w) of
        Inl e \<Rightarrow> Inl e
      | Inr fs' \<Rightarrow> Inr (print Simple_model_created (w\<lparr>nodes := fs'\<rparr>)))"

text \<open>\<^verbatim>\<open>os.makedirs(path, exist_ok=True)\<close> for a path of one component.\<close>

definition makedirs_exist_ok :: "string \<Rightarrow> fs \<Rightarrow> error + fs" where
  "makedirs_exist_ok path fs =
     (case fs path of
        None \<Rightarrow> Inr (fs(path \<mapsto> Dir))
      | Some Dir \<Rightarrow> Inr fs
      | Some (File _) \<Rightarrow> Inl FileExistsError)"

definition path_exists :: "string \<Rightarrow> fs \<Rightarrow> bool" where
  "path_exists path fs = (fs path \<noteq> None)"

text \<open>\<^verbatim>\<open>open(path, 'r')\<close> and reading the whole file.\<close>

definition open_read :: "string \<Rightarrow> fs \<Rightarrow> error + string" where
  "open_read path fs =
     (case fs path of
        None \<Rightarrow> Inl FileNotFoundError
      | Some Dir \<Rightarrow> Inl IsADirectoryError
      | Some (File text) \<Rightarrow> Inr text)"

definition getsize :: "'j externals \<Rightarrow> node \<Rightarrow> nat" where
  "getsize ext n = (case n of File text \<Rightarrow> length text | Dir \<Rightarrow> getsize_dir ext)"

definition model_json_path :: string where
  "model_json_path = ''models/model.json''"

definition weights_path :: string where
  "weights_path = ''models/weights.bin''"

text \<open>
  The body of the \<^verbatim>\<open>try\<close> block. Nothing is printed before the last statement
  that can raise, so a failure leaves the world as it was.
\<close>

definition validate :: "'j externals \<Rightarrow> world \<Rightarrow> error + world" where
  "validate ext w =
     (case open_read model_json_path (nodes w) of
        Inl e \<Rightarrow> Inl e
      | Inr text \<Rightarrow>
          (case json_load ext text of
             Inl e \<Rightarrow> Inl e
           | Inr model_config \<Rightarrow>
               let w1 = print Model_JSON_is_valid w
               in case nodes w1 weights_path of
                    Some n \<Rightarrow> Inr (print (Weights_file_exists (getsize ext n)) w1)
                  | None \<Rightarrow> Inr (print Weights_file_missing w1)))"

definition check_and_create_model :: "'j externals \<Rightarrow> world \<Rightarrow> error + world" where
  "check_and_create_model ext w =
     (case makedirs_exist_ok ''models'' (nodes w) of
        Inl e \<Rightarrow> Inl e
      | Inr fs1 \<Rightarrow>
          let w1 = w\<lparr>nodes := fs1\<rparr>
          in case (if \<not> path_exists model_json_path (nodes w1)
                   then create_simple_model ext (print Creating_model_files w1)
                   else Inr (print Model_files_already_exist w1)) of
               Inl e \<Rightarrow> Inl e
             | Inr w2 \<Rightarrow>
                 (case validate ext w2 of
                    Inr w3 \<Rightarrow> Inr w3
                  | Inl e \<Rightarrow> create_simple_model ext (print (Error_validating e) w2)))"

text \<open>
  The bundle as the specification describes it: a manifest that exists and parses,
  and a weights file that exists and is not empty.
\<close>

definition manifest_ok :: "'j externals \<Rightarrow> fs \<Rightarrow> bool" where
  "manifest_ok ext fs =
     (case fs model_json_path of
        Some (File text) \<Rightarrow> (case json_load ext text of Inr _ \<Rightarrow> True | Inl _ \<Rightarrow> False)
      | _ \<Rightarrow> False)"

definition weights_ok :: "fs \<Rightarrow> bool" where
  "weights_ok fs =
     (case fs weights_path of
        Some (File bytes) \<Rightarrow> bytes \<noteq> []
      | _ \<Rightarrow> False)"

text \<open>
  Concrete collaborators, to run the bootstrap on concrete file systems: a parser that
  accepts the text \<^verbatim>\<open>{}\<close> only, and a converter that writes a manifest and one
  shard of weights under the directory it is given.
\<close>

definition demo_externals :: "unit externals" where
  "demo_externals =
     \<lparr>json_load =
        (\<lambda>text. if text = ''{}'' then Inr () else Inl (ExternalError ''JSONDecodeError'')),
      save_keras_model =
        (\<lambda>m path fs.
           Inr (fs(path @ ''model.json'' \<mapsto> File ''{}'',
                   path @ ''group1-shard1of1.bin'' \<mapsto> File ''weights''))),
      getsize_dir = 4096\<rparr>"

section \<open>Properties of the encoder\<close>

lemma encode_loop_map: "encode_loop s encoded = encoded @ map encode_base s"
  by (induction s arbitrary: encoded) simp_all

lemma rows_encode:
  "rows (one_hot_encode_sequence L s) = map encode_base (pad_or_truncate L (clean s))"
  by (simp add: one_hot_encode_sequence_def np_array_def encode_loop_map)

lemma in_ATCG_iff:
  "c \<in> set ''ATCG'' \<longleftrightarrow> c = CHR ''A'' \<or> c = CHR ''T'' \<or> c = CHR ''C'' \<or> c = CHR ''G''"
  by auto


lemma encode_base_N: "encode_base CHR ''N'' = zero_vector"
  by (simp add: encode_base_def mapping_def zero_vector_def)


lemma length_encode_base: "length (encode_base c) = 4"
  by (simp add: encode_base_def mapping_def)

lemma set_clean: "set (clean s) \<subseteq> set ''ATCG''"
  unfolding clean_def by (rule subsetI) (simp only: set_filter, blast)

lemma length_pad_or_truncate: "0 \<le> L \<Longrightarrow> length (pad_or_truncate L s) = nat L"
  by (auto simp: pad_or_truncate_def slice_to_def)

lemma upper_char_idem: "upper_char (upper_char c) = upper_char c"
  by (auto simp: upper_char_def Let_def)

lemma upper_idem: "upper (upper s) = upper s"
  by (simp add: upper_def upper_char_idem)

lemma upper_char_fixed: "c \<in> set ''ATCG'' \<Longrightarrow> upper_char c = c"
  by (auto simp: upper_char_def)

lemma clean_upper: "clean (upper s) = clean s"
  by (simp add: clean_def upper_idem)

lemma upper_clean: "upper (clean s) = clean s"
proof -
  have "\<forall>c \<in> set (clean s). upper_char c = c"
    using set_clean [of s] upper_char_fixed by blast
  then show ?thesis unfolding upper_def by (simp add: map_idI)
qed

lemma clean_clean: "clean (clean s) = clean s"
  by (simp add: clean_def [of "clean s"] upper_clean) (simp add: clean_def)

lemma shape_encode_pos:
  assumes "1 \<le> L"
  shows "shape (one_hot_encode_sequence L s) = [nat L, 4]"
proof -
  let ?p = "pad_or_truncate L (clean s)"
  have len: "length ?p = nat L" using assms by (simp add: length_pad_or_truncate)
  then obtain b bs where p: "?p = b # bs" using assms by (cases ?p) auto
  have "length (map encode_base ?p) = nat L" using len by simp
  then show ?thesis
    using p
    by (simp add: one_hot_encode_sequence_def np_array_def encode_loop_map length_encode_base)
qed

lemma row_cases: "encode_base c \<in> basis_vectors \<or> encode_base c = zero_vector"
  by (auto simp: encode_base_def mapping_def basis_vectors_def zero_vector_def)

lemma nth_pad:
  assumes "0 \<le> L" "int i < L"
  shows "pad_or_truncate L f ! i = (if i < length f then f ! i else CHR ''N'')"
  using assms by (auto simp: pad_or_truncate_def slice_to_def nth_append)

lemma row_nth:
  assumes "int i < L"
  shows "rows (one_hot_encode_sequence L s) ! i =
         (if i < length (clean s) then encode_base (clean s ! i) else zero_vector)"
proof -
  have L: "0 \<le> L" using assms by simp
  have "i < length (pad_or_truncate L (clean s))"
    using assms L by (simp add: length_pad_or_truncate)
  then show ?thesis
    using assms L by (simp add: rows_encode nth_pad encode_base_N)
qed


text \<open>
  Claim C1, as the code has it. For every input string and every target length
  \<open>L \<ge> 1\<close> the encoder returns an array of shape \<open>(L, 4)\<close>: exactly \<open>L\<close> rows, each
  of four entries. For \<open>L = 0\<close> the list of rows is empty and \<^verbatim>\<open>np.array\<close> returns
  the empty array of shape \<open>(0,)\<close>, which has no axis of columns.
\<close>

theorem encoder_shape:
  "(1 \<le> L \<longrightarrow>
      shape (one_hot_encode_sequence L s) = [nat L, 4] \<and>
      length (rows (one_hot_encode_sequence L s)) = nat L \<and>
      (\<forall>r \<in> set (rows (one_hot_encode_sequence L s)). length r = 4)) \<and>
   (L = 0 \<longrightarrow> one_hot_encode_sequence L s = \<lparr>shape = [0], rows = []\<rparr>)"
proof (intro conjI impI)
  assume "1 \<le> L"
  then show "shape (one_hot_encode_sequence L s) = [nat L, 4]" by (rule shape_encode_pos)
next
  assume "1 \<le> L"
  then show "length (rows (one_hot_encode_sequence L s)) = nat L"
    by (simp add: rows_encode length_pad_or_truncate)
next
  show "\<forall>r \<in> set (rows (one_hot_encode_sequence L s)). length r = 4"
    by (auto simp: rows_encode length_encode_base)
next
  assume "L = 0"
  then show "one_hot_encode_sequence L s = \<lparr>shape = [0], rows = []\<rparr>"
    by (simp add: one_hot_encode_sequence_def np_array_def pad_or_truncate_def slice_to_def)
qed

theorem encoder_shape_witness:
  "shape (one_hot_encode_sequence 3 ''gattaca'') = [3, 4] \<and>
   length (rows (one_hot_encode_sequence 3 ''gattaca'')) = 3 \<and>
   one_hot_encode_sequence 0 ''gattaca'' = \<lparr>shape = [0], rows = []\<rparr>"
  using encoder_shape [of 3 "''gattaca''"] encoder_shape [of 0 "''gattaca''"] by simp

text \<open>
  Claim C1 as it is stated fails at \<open>L = 0\<close>: the shape of the result is \<open>(0,)\<close>, not
  \<open>(0, 4)\<close>.
\<close>

theorem encoder_shape_zero_length:
  "shape (one_hot_encode_sequence 0 ''ATCG'') = [0] \<and>
   shape (one_hot_encode_sequence 0 ''ATCG'') \<noteq> [0, 4]"
  by (simp add: one_hot_encode_sequence_def np_array_def pad_or_truncate_def slice_to_def)

text \<open>
  Claim C2. For every input string and every row index \<open>i < L\<close>, row \<open>i\<close> of the
  encoder's output is one of five vectors: the basis vectors \<open>[1,0,0,0]\<close>,
  \<open>[0,1,0,0]\<close>, \<open>[0,0,1,0]\<close>, \<open>[0,0,0,1]\<close>, which stand for A, T, C and G in this
  order, or the zero vector.
\<close>

theorem encoder_rows_five_values:
  "(int i < L \<longrightarrow>
      rows (one_hot_encode_sequence L s) ! i \<in>
        {[1, 0, 0, 0], [0, 1, 0, 0], [0, 0, 1, 0], [0, 0, 0, 1], [0, 0, 0, 0]}) \<and>
   encode_base CHR ''A'' = [1, 0, 0, 0] \<and>
   encode_base CHR ''T'' = [0, 1, 0, 0] \<and>
   encode_base CHR ''C'' = [0, 0, 1, 0] \<and>
   encode_base CHR ''G'' = [0, 0, 0, 1]"
proof -
  have "rows (one_hot_encode_sequence L s) ! i \<in>
        {[1, 0, 0, 0], [0, 1, 0, 0], [0, 0, 1, 0], [0, 0, 0, 1], [0, 0, 0, 0]}"
    if "int i < L"
    using that row_cases by (auto simp: row_nth basis_vectors_def zero_vector_def)
  then show ?thesis by (simp add: encode_base_def mapping_def)
qed

theorem encoder_rows_five_values_witness:
  "rows (one_hot_encode_sequence 5 ''tagc'') ! 2 \<in>
     {[1, 0, 0, 0], [0, 1, 0, 0], [0, 0, 1, 0], [0, 0, 0, 1], [0, 0, 0, 0]} \<and>
   rows (one_hot_encode_sequence 5 ''tagc'') ! 4 \<in>
     {[1, 0, 0, 0], [0, 1, 0, 0], [0, 0, 1, 0], [0, 0, 0, 1], [0, 0, 0, 0]}"
  using encoder_rows_five_values [of 2 5 "''tagc''"]
    encoder_rows_five_values [of 4 5 "''tagc''"] by simp

text \<open>
  Claim C5. Characters outside A, T, C, G are removed before padding, not encoded in
  place: encoding \<open>s\<close> is encoding the A/T/C/G characters of the uppercased \<open>s\<close>, and
  \<^verbatim>\<open>"AXTXCXG"\<close> is encoded as \<^verbatim>\<open>"ATCG"\<close> padded to \<open>L\<close>.
\<close>

theorem encoder_drops_before_padding:
  "one_hot_encode_sequence L s =
     one_hot_encode_sequence L (filter (\<lambda>c. c \<in> set ''ATCG'') (upper s)) \<and>
   one_hot_encode_sequence L ''AXTXCXG'' = one_hot_encode_sequence L ''ATCG'' \<and>
   rows (one_hot_encode_sequence L ''AXTXCXG'') =
     map encode_base (pad_or_truncate L ''ATCG'')"
proof (intro conjI)
  have "one_hot_encode_sequence L s = one_hot_encode_sequence L (clean s)"
    by (simp add: one_hot_encode_sequence_def clean_clean)
  then show "one_hot_encode_sequence L s =
     one_hot_encode_sequence L (filter (\<lambda>c. c \<in> set ''ATCG'') (upper s))"
    by (simp add: clean_def)
  have c: "clean ''AXTXCXG'' = ''ATCG''" "clean ''ATCG'' = ''ATCG''"
    by (simp_all add: clean_def upper_def upper_char_def)
  show "one_hot_encode_sequence L ''AXTXCXG'' = one_hot_encode_sequence L ''ATCG''"
    by (simp add: one_hot_encode_sequence_def c)
  show "rows (one_hot_encode_sequence L ''AXTXCXG'') =
     map encode_base (pad_or_truncate L ''ATCG'')"
    by (simp add: rows_encode c)
qed

theorem encoder_drops_before_padding_witness:
  "one_hot_encode_sequence 6 ''gNNa-t''
     = \<lparr>shape = [6, 4],
        rows = [[0, 0, 0, 1], [1, 0, 0, 0], [0, 1, 0, 0],
                [0, 0, 0, 0], [0, 0, 0, 0], [0, 0, 0, 0]]\<rparr>"
proof -
  have "filter (\<lambda>c. c \<in> set ''ATCG'') (upper ''gNNa-t'') = ''GAT''"
    by code_simp
  then have "one_hot_encode_sequence 6 ''gNNa-t'' = one_hot_encode_sequence 6 ''GAT''"
    using encoder_drops_before_padding [of 6 "''gNNa-t''"] by simp
  moreover have "clean ''GAT'' = ''GAT''"
    by (simp add: clean_def upper_def upper_char_def)
  ultimately show ?thesis
    by (simp add: one_hot_encode_sequence_def np_array_def pad_or_truncate_def
        encode_base_def mapping_def numeral_eq_Suc)
qed

text \<open>
  Claim C6. Encoding is case-insensitive: encoding \<open>s\<close> is encoding the uppercased
  \<open>s\<close>, and \<^verbatim>\<open>"atcg"\<close> and \<^verbatim>\<open>"ATCG"\<close> have the same encoding.
\<close>

theorem encoder_case_insensitive:
  "one_hot_encode_sequence L s = one_hot_encode_sequence L (upper s) \<and>
   one_hot_encode_sequence L ''atcg'' = one_hot_encode_sequence L ''ATCG''"
proof
  show "one_hot_encode_sequence L s = one_hot_encode_sequence L (upper s)"
    by (simp add: one_hot_encode_sequence_def clean_upper)
  have "clean ''atcg'' = clean ''ATCG''"
    by code_simp
  then show "one_hot_encode_sequence L ''atcg'' = one_hot_encode_sequence L ''ATCG''"
    by (simp add: one_hot_encode_sequence_def)
qed

text \<open>
  Claim C7. With \<open>L = 16\<close>, \<^verbatim>\<open>"AAAATTTTCCCCGGGG"\<close> is encoded as sixteen rows: four
  times the vector of A, then of T, then of C, then of G, and no zero row.
\<close>

theorem encoder_end_to_end:
  "one_hot_encode_sequence 16 ''AAAATTTTCCCCGGGG'' =
     \<lparr>shape = [16, 4],
      rows = replicate 4 [1, 0, 0, 0] @ replicate 4 [0, 1, 0, 0] @
             replicate 4 [0, 0, 1, 0] @ replicate 4 [0, 0, 0, 1]\<rparr> \<and>
   [0, 0, 0, 0] \<notin> set (rows (one_hot_encode_sequence 16 ''AAAATTTTCCCCGGGG''))"
proof -
  have c: "clean ''AAAATTTTCCCCGGGG'' = ''AAAATTTTCCCCGGGG''"
    by (simp add: clean_def upper_def upper_char_def)
  have p: "pad_or_truncate 16 ''AAAATTTTCCCCGGGG'' = ''AAAATTTTCCCCGGGG''"
    by (simp add: pad_or_truncate_def slice_to_def)
  have e: "one_hot_encode_sequence 16 ''AAAATTTTCCCCGGGG'' =
     \<lparr>shape = [16, 4],
      rows = replicate 4 [1, 0, 0, 0] @ replicate 4 [0, 1, 0, 0] @
             replicate 4 [0, 0, 1, 0] @ replicate 4 [0, 0, 0, 1]\<rparr>"
    by (simp add: one_hot_encode_sequence_def c p np_array_def encode_base_def mapping_def
        numeral_eq_Suc)
  show ?thesis unfolding e by (simp add: numeral_eq_Suc)
qed



section \<open>Properties of the classifier\<close>

lemma init_untrained: "model (init L) = None"
  by (simp add: init_def)

lemma load_and_preprocess_data_fits:
  assumes "load_and_preprocess_data read_excel self path = Inr ((X, y), self')"
    and "read_excel path = Inr (sequences, labels)"
  shows "label_encoder self' = Some (sort (remdups labels)) \<and>
         class_names self' = class_names self \<and> model self' = model self"
  using assms by (auto simp: load_and_preprocess_data_def fit_transform_def Let_def)

lemma update_fresh: "k \<notin> fst ` set d \<Longrightarrow> AList.update k v d = d @ [(k, v)]"
  by (induction d) auto

lemma all_probabilities_loop_zip:
  assumes "distinct names" and "map fst d = take i names" and "i + length ps \<le> length names"
  shows "all_probabilities_loop names i ps d = Inr (d @ zip (drop i names) ps)"
  using assms
proof (induction ps arbitrary: i d)
  case Nil
  then show ?case by simp
next
  case (Cons prob rest)
  have i: "i < length names" using Cons.prems(3) by simp
  have "names ! i \<notin> set (take i names)"
    using Cons.prems(1) i by (metis distinct_take id_take_nth_drop not_distinct_conv_prefix)
  then have fresh: "names ! i \<notin> fst ` set d"
    using Cons.prems(2) by (metis set_map)
  have keys: "map fst (d @ [(names ! i, prob)]) = take (Suc i) names"
    using Cons.prems(2) i by (simp add: take_Suc_conv_app_nth)
  have "all_probabilities_loop names (Suc i) rest (d @ [(names ! i, prob)]) =
        Inr ((d @ [(names ! i, prob)]) @ zip (drop (Suc i) names) rest)"
    using Cons.prems(1,3) keys by (intro Cons.IH) simp_all
  moreover have "zip (drop i names) (prob # rest) =
        (names ! i, prob) # zip (drop (Suc i) names) rest"
    using i by (simp add: Cons_nth_drop_Suc [symmetric])
  ultimately show ?case using i by (simp add: update_fresh [OF fresh])
qed

lemma all_probabilities_loop_overflow:
  assumes "i \<le> length names" and "length names < i + length ps"
  shows "all_probabilities_loop names i ps d = Inl IndexError"
  using assms by (induction ps arbitrary: i d) auto

lemma argmax_loop_spec:
  assumes "i = length pre" and "best < i" and "v = pre ! best" and "\<forall>x \<in> set pre. x \<le> v"
  shows "argmax_loop xs i best v < length (pre @ xs) \<and>
         (\<forall>x \<in> set (pre @ xs). x \<le> (pre @ xs) ! argmax_loop xs i best v)"
  using assms
proof (induction xs arbitrary: pre i best v)
  case Nil
  then show ?case by simp
next
  case (Cons x xs)
  show ?case
  proof (cases "v < x")
    case True
    have "argmax_loop xs (Suc i) i x < length ((pre @ [x]) @ xs) \<and>
         (\<forall>y \<in> set ((pre @ [x]) @ xs). y \<le> ((pre @ [x]) @ xs) ! argmax_loop xs (Suc i) i x)"
      using Cons.prems True by (intro Cons.IH) (auto simp: nth_append)
    then show ?thesis using True by simp
  next
    case False
    have "argmax_loop xs (Suc i) best v < length ((pre @ [x]) @ xs) \<and>
         (\<forall>y \<in> set ((pre @ [x]) @ xs). y \<le> ((pre @ [x]) @ xs) ! argmax_loop xs (Suc i) best v)"
      using Cons.prems False by (intro Cons.IH) (auto simp: nth_append)
    then show ?thesis using False by simp
  qed
qed

lemma argmax_spec:
  assumes "argmax xs = Inr k"
  shows "k < length xs \<and> (\<forall>x \<in> set xs. x \<le> xs ! k)"
proof (cases xs)
  case Nil
  then show ?thesis using assms by (simp add: argmax_def)
next
  case (Cons x rest)
  then have k: "k = argmax_loop rest 1 0 x" using assms by (simp add: argmax_def)
  show ?thesis
    using argmax_loop_spec [of 1 "[x]" 0 x rest] Cons k by simp
qed

text \<open>
  Claim C4. On an instance whose \<open>model\<close> is \<^verbatim>\<open>None\<close>, that is before training,
  \<^verbatim>\<open>evaluate\<close>, \<^verbatim>\<open>predict\<close> and \<^verbatim>\<open>save_model\<close> each raise a
  \<^verbatim>\<open>ValueError\<close>: none of them returns a result, calls a collaborator or changes
  the files, whatever the arguments and the collaborators are.
\<close>

theorem untrained_operations_raise:
  assumes "model self = None"
  shows "evaluate model_evaluate self X y = Inl (ValueError ''Model must be trained first'') \<and>
         predict model_predict self sequence = Inl (ValueError ''Model must be trained first'') \<and>
         save_model ext self model_path w = Inl (ValueError ''No model to save'')"
  using assms by (simp add: evaluate_def predict_def save_model_def)

theorem untrained_operations_raise_witness:
  "evaluate (\<lambda>m X y. Inr (0 :: real, 1 :: real)) (init 1000 :: unit classifier)
       [''ATCG''] [0 :: nat]
     = Inl (ValueError ''Model must be trained first'') \<and>
   predict (\<lambda>m a. Inr [[1 :: real, 0, 0, 0]]) (init 1000 :: unit classifier) ''ATCG''
     = Inl (ValueError ''Model must be trained first'') \<and>
   save_model
       \<lparr>keras_save = \<lambda>m p fs. Inr (fs(p \<mapsto> File ''h5'')),
        tfjs_save = \<lambda>m p fs. Inr (fs(p @ ''/model.json'' \<mapsto> File ''{}'')),
        json_dump = \<lambda>i. ''{}'',
        write_text = \<lambda>p t fs. Inr (fs(p \<mapsto> File t))\<rparr>
       (init 1000 :: unit classifier) ''models/'' \<lparr>nodes = Map.empty, stdout = []\<rparr>
     = Inl (ValueError ''No model to save'')"
proof -
  have "model (init 1000 :: unit classifier) = None" by (rule init_untrained)
  note c = untrained_operations_raise [OF this]
  show ?thesis
    by (intro conjI)
      (rule c [THEN conjunct1], rule c [THEN conjunct2, THEN conjunct1],
        rule c [THEN conjunct2, THEN conjunct2])
qed

text \<open>
  Claim C10. Take an instance made by the constructor, trained (its \<open>model\<close> is
  \<open>m\<close>) and with a label encoder fitted to the vocabulary \<open>classes\<close>, and let the
  network answer the vector \<open>p0\<close> of at most four scores, with arg-max index \<open>k\<close>
  inside the vocabulary. Then \<^verbatim>\<open>predict\<close> returns the class \<open>classes ! k\<close>, read
  from the label encoder, while \<^verbatim>\<open>all_probabilities\<close> pairs score \<open>i\<close> with entry
  \<open>i\<close> of the constructor's list Human, Bacteria, Virus, Plant, in this order and
  whatever \<open>classes\<close> is. The two orders differ: fitted to these four names, the
  label encoder's vocabulary is Bacteria, Human, Plant, Virus.
\<close>

theorem predict_two_orderings:
  fixes model_predict :: "'m \<Rightarrow> ndarray \<Rightarrow> error + 'p::linorder list list"
  assumes "self = (init L)\<lparr>model := Some m, label_encoder := Some classes\<rparr>"
    and "model_predict m (expand_dims0 (one_hot_encode_sequence L sequence)) = Inr (p0 # others)"
    and "length p0 \<le> 4"
    and "argmax p0 = Inr k"
    and "k < length classes"
  shows "predict model_predict self sequence =
           Inr \<lparr>class_key = classes ! k,
                confidence = p0 ! k,
                all_probabilities = zip [''Human'', ''Bacteria'', ''Virus'', ''Plant''] p0\<rparr> \<and>
         k < length p0 \<and> (\<forall>x \<in> set p0. x \<le> p0 ! k) \<and>
         fit_transform [''Human'', ''Bacteria'', ''Virus'', ''Plant''] =
           (Some [''Bacteria'', ''Human'', ''Plant'', ''Virus''], [1, 0, 3, 2])"
proof (intro conjI)
  let ?names = "[''Human'', ''Bacteria'', ''Virus'', ''Plant'']"
  have d: "all_probabilities_loop ?names 0 p0 [] = Inr ([] @ zip (drop 0 ?names) p0)"
    using assms(3) by (intro all_probabilities_loop_zip) simp_all
  have inv: "inverse_transform (Some classes) [k] = Inr [classes ! k]"
    using assms(5) by (simp add: inverse_transform_def)
  show "predict model_predict self sequence =
           Inr \<lparr>class_key = classes ! k,
                confidence = p0 ! k,
                all_probabilities = zip ?names p0\<rparr>"
    using d inv assms(2,4) by (simp add: predict_def assms(1) init_def)
  show "k < length p0" using argmax_spec [OF assms(4)] by simp
  show "\<forall>x \<in> set p0. x \<le> p0 ! k" using argmax_spec [OF assms(4)] by simp
  show "fit_transform ?names = (Some [''Bacteria'', ''Human'', ''Plant'', ''Virus''], [1, 0, 3, 2])"
    by code_simp
qed

theorem predict_two_orderings_witness:
  "predict (\<lambda>m a. Inr [[7 / 10, 1 / 10, 1 / 10, 1 / 10 :: real]])
     ((init 4)\<lparr>model := Some (),
        label_encoder := Some [''Bacteria'', ''Human'', ''Plant'', ''Virus'']\<rparr>)
     ''ATCG'' =
   Inr \<lparr>class_key = ''Bacteria'',
        confidence = 7 / 10,
        all_probabilities =
          [(''Human'', 7 / 10), (''Bacteria'', 1 / 10), (''Virus'', 1 / 10), (''Plant'', 1 / 10)]\<rparr>"
proof -
  have a: "argmax [7 / 10, 1 / 10, 1 / 10, 1 / 10 :: real] = Inr 0"
    by (simp add: argmax_def)
  show ?thesis
    using predict_two_orderings
        [OF refl, of "\<lambda>m a. Inr [[7 / 10, 1 / 10, 1 / 10, 1 / 10 :: real]]" "()" 4
          "''ATCG''" "[7 / 10, 1 / 10, 1 / 10, 1 / 10]" "[]" 0
          "[''Bacteria'', ''Human'', ''Plant'', ''Virus'']"]
      a
    by simp
qed

section \<open>Properties of the bootstrap\<close>

lemma validate_ok:
  assumes "manifest_ok ext (nodes w)"
  shows "validate ext w =
           Inr (w\<lparr>stdout := stdout w @
                  [Model_JSON_is_valid,
                   case nodes w weights_path of
                     Some n \<Rightarrow> Weights_file_exists (getsize ext n)
                   | None \<Rightarrow> Weights_file_missing]\<rparr>)"
  using assms
  by (auto simp: manifest_ok_def validate_def open_read_def print_def Let_def
      split: option.splits node.splits sum.splits)

lemma validate_fail:
  assumes "\<not> manifest_ok ext (nodes w)"
  shows "\<exists>e. validate ext w = Inl e"
  using assms
  by (auto simp: manifest_ok_def validate_def open_read_def Let_def
      split: option.splits node.splits sum.splits)

lemma validate_nodes: "validate ext w = Inr w' \<Longrightarrow> nodes w' = nodes w \<and> manifest_ok ext (nodes w)"
  by (auto simp: manifest_ok_def validate_def open_read_def print_def Let_def
      split: option.splits node.splits sum.splits)

lemma manifest_ok_exists: "manifest_ok ext fs \<Longrightarrow> path_exists model_json_path fs"
  by (auto simp: manifest_ok_def path_exists_def split: option.splits)

lemma create_simple_model_nodes:
  "create_simple_model ext w = Inr w' \<longleftrightarrow>
   (\<exists>fs'. save_keras_model ext simple_model ''models/'' (nodes w) = Inr fs' \<and>
      w' = print Simple_model_created (w\<lparr>nodes := fs'\<rparr>))"
  by (auto simp: create_simple_model_def split: sum.splits)

lemma check_manifest_ok:
  assumes "nodes w ''models'' = Some Dir" and "manifest_ok ext (nodes w)"
  shows "check_and_create_model ext w =
           Inr (w\<lparr>stdout := stdout w @
                  [Model_files_already_exist, Model_JSON_is_valid,
                   case nodes w weights_path of
                     Some n \<Rightarrow> Weights_file_exists (getsize ext n)
                   | None \<Rightarrow> Weights_file_missing]\<rparr>)"
proof -
  let ?w2 = "print Model_files_already_exist w"
  have "manifest_ok ext (nodes ?w2)" using assms(2) by (simp add: print_def)
  note validate_ok [OF this]
  then show ?thesis
    using assms manifest_ok_exists [OF assms(2)]
    by (auto simp: check_and_create_model_def makedirs_exist_ok_def print_def Let_def)
qed

lemma check_manifest_bad:
  assumes "makedirs_exist_ok ''models'' (nodes w) = Inr fs1"
    and "\<not> manifest_ok ext fs1"
    and "save_keras_model ext simple_model ''models/'' fs1 = Inr fs2"
    and "manifest_ok ext fs2"
  shows "\<exists>w'. check_and_create_model ext w = Inr w' \<and> nodes w' = fs2"
proof (cases "path_exists model_json_path fs1")
  case False
  let ?w2 = "print Simple_model_created ((print Creating_model_files (w\<lparr>nodes := fs1\<rparr>))\<lparr>nodes := fs2\<rparr>)"
  have c: "create_simple_model ext (print Creating_model_files (w\<lparr>nodes := fs1\<rparr>)) = Inr ?w2"
    using assms(3) by (simp add: create_simple_model_def print_def)
  have "manifest_ok ext (nodes ?w2)" using assms(4) by (simp add: print_def)
  note v = validate_ok [OF this]
  show ?thesis
    using False assms(1) c v by (simp add: check_and_create_model_def print_def Let_def)
next
  case True
  let ?w2 = "print Model_files_already_exist (w\<lparr>nodes := fs1\<rparr>)"
  have "\<not> manifest_ok ext (nodes ?w2)" using assms(2) by (simp add: print_def)
  from validate_fail [OF this] obtain e where v: "validate ext ?w2 = Inl e" ..
  have "create_simple_model ext (print (Error_validating e) ?w2) =
        Inr (print Simple_model_created ((print (Error_validating e) ?w2)\<lparr>nodes := fs2\<rparr>))"
    using assms(3) by (simp add: create_simple_model_def print_def)
  then show ?thesis
    using True assms(1) v by (simp add: check_and_create_model_def print_def Let_def)
qed

lemma check_returns_manifest_ok:
  assumes "\<forall>fs fs'. save_keras_model ext simple_model ''models/'' fs = Inr fs' \<longrightarrow> manifest_ok ext fs'"
    and "check_and_create_model ext w = Inr w'"
  shows "manifest_ok ext (nodes w')"
proof -
  have cre: "manifest_ok ext (nodes v')" if "create_simple_model ext v = Inr v'" for v v'
    using that assms(1) by (auto simp: create_simple_model_nodes print_def)
  from assms(2) obtain fs1 w2 where
    w2: "(if \<not> path_exists model_json_path fs1
          then create_simple_model ext (print Creating_model_files (w\<lparr>nodes := fs1\<rparr>))
          else Inr (print Model_files_already_exist (w\<lparr>nodes := fs1\<rparr>))) = Inr w2"
    and r: "(case validate ext w2 of Inr w3 \<Rightarrow> Inr w3
             | Inl e \<Rightarrow> create_simple_model ext (print (Error_validating e) w2)) = Inr w'"
    by (auto simp: check_and_create_model_def Let_def split: sum.splits)
  show ?thesis
  proof (cases "validate ext w2")
    case (Inr w3)
    then show ?thesis using r validate_nodes [OF Inr] by simp
  next
    case (Inl e)
    then show ?thesis using r cre by simp
  qed
qed

lemma demo_contract:
  "save_keras_model demo_externals simple_model ''models/'' fs = Inr fs' \<Longrightarrow>
     manifest_ok demo_externals fs'"
  by (auto simp: demo_externals_def manifest_ok_def model_json_path_def)

text \<open>
  Claim C3, as the code has it. The bootstrap checks that the manifest
  \<^verbatim>\<open>models/model.json\<close> exists, can be read and parses. If it does and the weights
  file \<^verbatim>\<open>models/weights.bin\<close> exists, the files stay as they are and the size of the
  weights file is printed, whatever it is: an empty weights file passes. If the
  manifest check fails, \<^verbatim>\<open>create_simple_model\<close> runs, and the files the converter
  leaves are the result. So when the bootstrap returns, and the converter writes
  manifests that parse, a manifest that parses exists.
\<close>

theorem bootstrap_checks_manifest:
  "(nodes w ''models'' = Some Dir \<and> manifest_ok ext (nodes w) \<and>
    nodes w weights_path = Some n \<longrightarrow>
      check_and_create_model ext w =
        Inr (w\<lparr>stdout := stdout w @
               [Model_files_already_exist, Model_JSON_is_valid,
                Weights_file_exists (getsize ext n)]\<rparr>)) \<and>
   (makedirs_exist_ok ''models'' (nodes w) = Inr fs1 \<and> \<not> manifest_ok ext fs1 \<and>
    save_keras_model ext simple_model ''models/'' fs1 = Inr fs2 \<and> manifest_ok ext fs2 \<longrightarrow>
      (\<exists>w'. check_and_create_model ext w = Inr w' \<and> nodes w' = fs2)) \<and>
   ((\<forall>fs fs'. save_keras_model ext simple_model ''models/'' fs = Inr fs' \<longrightarrow>
        manifest_ok ext fs') \<and>
    check_and_create_model ext w = Inr w'' \<longrightarrow>
      manifest_ok ext (nodes w''))"
proof (intro conjI impI)
  assume "nodes w ''models'' = Some Dir \<and> manifest_ok ext (nodes w) \<and>
    nodes w weights_path = Some n"
  then show "check_and_create_model ext w =
        Inr (w\<lparr>stdout := stdout w @
               [Model_files_already_exist, Model_JSON_is_valid,
                Weights_file_exists (getsize ext n)]\<rparr>)"
    using check_manifest_ok [of w ext] by simp
next
  assume "makedirs_exist_ok ''models'' (nodes w) = Inr fs1 \<and> \<not> manifest_ok ext fs1 \<and>
    save_keras_model ext simple_model ''models/'' fs1 = Inr fs2 \<and> manifest_ok ext fs2"
  then show "\<exists>w'. check_and_create_model ext w = Inr w' \<and> nodes w' = fs2"
    using check_manifest_bad [of w fs1 ext fs2] by blast
next
  assume "(\<forall>fs fs'. save_keras_model ext simple_model ''models/'' fs = Inr fs' \<longrightarrow>
        manifest_ok ext fs') \<and>
    check_and_create_model ext w = Inr w''"
  then show "manifest_ok ext (nodes w'')"
    using check_returns_manifest_ok [of ext w w''] by blast
qed

theorem bootstrap_checks_manifest_witness:
  "check_and_create_model demo_externals
     \<lparr>nodes = [''models'' \<mapsto> Dir, ''models/model.json'' \<mapsto> File ''{}'',
               ''models/weights.bin'' \<mapsto> File ''w''],
      stdout = []\<rparr> =
   Inr \<lparr>nodes = [''models'' \<mapsto> Dir, ''models/model.json'' \<mapsto> File ''{}'',
                 ''models/weights.bin'' \<mapsto> File ''w''],
        stdout = [Model_files_already_exist, Model_JSON_is_valid, Weights_file_exists 1]\<rparr> \<and>
   (\<exists>w'. check_and_create_model demo_externals
           \<lparr>nodes = [''models'' \<mapsto> Dir, ''models/model.json'' \<mapsto> File ''not json''],
            stdout = []\<rparr> = Inr w' \<and>
         nodes w' = [''models'' \<mapsto> Dir, ''models/model.json'' \<mapsto> File ''{}'',
                     ''models/group1-shard1of1.bin'' \<mapsto> File ''weights''] \<and>
         manifest_ok demo_externals (nodes w'))"
proof -
  let ?wA = "\<lparr>nodes = [''models'' \<mapsto> Dir, ''models/model.json'' \<mapsto> File ''{}'',
               ''models/weights.bin'' \<mapsto> File ''w''],
      stdout = []\<rparr>"
  let ?wB = "\<lparr>nodes = [''models'' \<mapsto> Dir, ''models/model.json'' \<mapsto> File ''not json''],
            stdout = []\<rparr>"
  let ?fs2 = "[''models'' \<mapsto> Dir, ''models/model.json'' \<mapsto> File ''{}'',
                     ''models/group1-shard1of1.bin'' \<mapsto> File ''weights'']"
  have a1: "nodes ?wA ''models'' = Some Dir" by simp
  have a2: "manifest_ok demo_externals (nodes ?wA)"
    by (simp add: manifest_ok_def model_json_path_def demo_externals_def)
  have a3: "nodes ?wA weights_path = Some (File ''w'')"
    by (simp add: weights_path_def)
  have b1: "makedirs_exist_ok ''models'' (nodes ?wB) = Inr (nodes ?wB)"
    by (simp add: makedirs_exist_ok_def)
  have b2: "\<not> manifest_ok demo_externals (nodes ?wB)"
    by (simp add: manifest_ok_def model_json_path_def demo_externals_def)
  have b3: "save_keras_model demo_externals simple_model ''models/'' (nodes ?wB) = Inr ?fs2"
    by (simp add: demo_externals_def)
  have b4: "manifest_ok demo_externals ?fs2"
    by (simp add: manifest_ok_def model_json_path_def demo_externals_def)
  have c: "\<forall>fs fs'. save_keras_model demo_externals simple_model ''models/'' fs = Inr fs' \<longrightarrow>
        manifest_ok demo_externals fs'"
    using demo_contract by blast
  have A: "check_and_create_model demo_externals ?wA =
        Inr (?wA\<lparr>stdout := stdout ?wA @
               [Model_files_already_exist, Model_JSON_is_valid,
                Weights_file_exists (getsize demo_externals (File ''w''))]\<rparr>)"
    using bootstrap_checks_manifest [of ?wA demo_externals "File ''w''"] a1 a2 a3 by blast
  obtain w' where B: "check_and_create_model demo_externals ?wB = Inr w'" "nodes w' = ?fs2"
    using bootstrap_checks_manifest [of ?wB demo_externals _ "nodes ?wB" ?fs2] b1 b2 b3 b4
    by blast
  have C: "manifest_ok demo_externals (nodes w')"
    using bootstrap_checks_manifest [of ?wB demo_externals _ _ _ w'] c B(1) by blast
  have "check_and_create_model demo_externals ?wA =
     Inr \<lparr>nodes = nodes ?wA,
        stdout = [Model_files_already_exist, Model_JSON_is_valid, Weights_file_exists 1]\<rparr>"
    unfolding A by (simp add: getsize_def)
  then show ?thesis using B C by auto
qed

text \<open>
  Claim C3 as it is stated fails on a bundle whose weights file is empty: the manifest
  parses, so the bootstrap prints the size 0 and returns with the files as they were,
  and the bundle still has no weights.
\<close>

theorem bootstrap_keeps_empty_weights:
  "check_and_create_model demo_externals
     \<lparr>nodes = [''models'' \<mapsto> Dir, ''models/model.json'' \<mapsto> File ''{}'',
               ''models/weights.bin'' \<mapsto> File []],
      stdout = []\<rparr> =
   Inr \<lparr>nodes = [''models'' \<mapsto> Dir, ''models/model.json'' \<mapsto> File ''{}'',
                 ''models/weights.bin'' \<mapsto> File []],
        stdout = [Model_files_already_exist, Model_JSON_is_valid, Weights_file_exists 0]\<rparr> \<and>
   \<not> weights_ok [''models'' \<mapsto> Dir, ''models/model.json'' \<mapsto> File ''{}'',
                  ''models/weights.bin'' \<mapsto> File []]"
  by (simp add: check_and_create_model_def makedirs_exist_ok_def path_exists_def
      model_json_path_def weights_path_def validate_def open_read_def demo_externals_def
      print_def weights_ok_def getsize_def Let_def)





end
